theory Spec2Isabelle
  imports Complex_Main "HOL-Library.AList"
begin

section \<open>Exceptions of the graph module and of the interpreter\<close>

text \<open>
  Every exception raised by \<^verbatim>\<open>graph.py\<close> is a \<^verbatim>\<open>GraphError\<close> carrying a message; the
  message is what tells the failures apart, so it is kept as a constructor argument.
  The other constructors are the built-in exceptions that the code can let escape.
\<close>

datatype 'a graph_message =
    NodeExists 'a
  | NodeNotFound 'a
  | EdgeExists 'a 'a
  | EndpointsNotFound
  | EdgeNotFound 'a 'a
  | SelfLoop

datatype 'a error =
    GraphError "'a graph_message"
  | ZeroDivisionError
  | UnboundLocalError
  | KeyError
  | TypeError
  | AttributeError

section \<open>Nodes, edges and the graph store\<close>

text \<open>
  A \<^verbatim>\<open>Node\<close> object with the fields its constructor sets. The neighbour lists start as
  \<^verbatim>\<open>None\<close>. The attribute bag is the keyword dictionary; the graph code only stores it.
\<close>

record ('a, 'b) node =
  n_identifier :: 'a
  n_attributes :: 'b
  n_in_degree :: int
  n_out_degree :: int
  n_in_neighbors :: "'a list option"
  n_out_neighbors :: "'a list option"
  flag_in :: bool
  flag_in_neig :: bool
  flag_out :: bool
  flag_out_neig :: bool

definition Node :: "'a \<Rightarrow> 'b \<Rightarrow> ('a, 'b) node" where
  "Node i attrs =
     \<lparr> n_identifier = i, n_attributes = attrs, n_in_degree = 0, n_out_degree = 0,
       n_in_neighbors = None, n_out_neighbors = None,
       flag_in = False, flag_in_neig = False, flag_out = False, flag_out_neig = False \<rparr>"

text \<open>
  An \<^verbatim>\<open>Edge\<close> holds references to its two node objects; a reference is modelled by the
  identifier under which the node object is stored in the graph.
\<close>

record ('a, 'b) edge =
  e_nodes :: "'a \<times> 'a"
  e_attributes :: 'b

definition Edge :: "'a \<Rightarrow> 'a \<Rightarrow> 'b \<Rightarrow> ('a, 'b) edge" where
  "Edge n1 n2 attrs = \<lparr> e_nodes = (n1, n2), e_attributes = attrs \<rparr>"

text \<open>
  The two dictionaries of \<^verbatim>\<open>BaseGraph\<close>. Python dictionaries iterate in insertion order and
  the code depends on it, so both are association lists: a new key goes to the end
  (\<^const>\<open>AList.update\<close>), a field assignment on a stored object rewrites its entry in place
  (\<^const>\<open>AList.map_entry\<close>).
\<close>

record ('a, 'b) graph =
  g_nodes :: "('a \<times> ('a, 'b) node) list"
  g_edges :: "(('a \<times> 'a) \<times> ('a, 'b) edge) list"

definition has_key :: "'k \<Rightarrow> ('k \<times> 'v) list \<Rightarrow> bool" where
  "has_key k d = (map_of d k \<noteq> None)"

definition empty_graph :: "('a, 'b) graph" where
  "empty_graph = \<lparr> g_nodes = [], g_edges = [] \<rparr>"

definition len_graph :: "('a, 'b) graph \<Rightarrow> int" where
  "len_graph g = int (length (g_nodes g))"

definition add_node ::
  "('a, 'b) graph \<Rightarrow> 'a \<Rightarrow> 'b \<Rightarrow> ('a error + unit) \<times> ('a, 'b) graph" where
  "add_node g node_id attrs =
     (if has_key node_id (g_nodes g) then (Inl (GraphError (NodeExists node_id)), g)
      else (Inr (), g\<lparr> g_nodes := AList.update node_id (Node node_id attrs) (g_nodes g) \<rparr>))"

definition node :: "('a, 'b) graph \<Rightarrow> 'a \<Rightarrow> 'a error + ('a, 'b) node" where
  "node g node_id =
     (case map_of (g_nodes g) node_id of
        None \<Rightarrow> Inl (GraphError (NodeNotFound node_id))
      | Some n \<Rightarrow> Inr n)"

definition nodes_id :: "('a::linorder, 'b) graph \<Rightarrow> 'a list" where
  "nodes_id g = sort (map fst (g_nodes g))"

text \<open>
  \<^verbatim>\<open>BaseGraph.add_edge\<close>, which \<^verbatim>\<open>DirectedGraph\<close> inherits unchanged. Both checks come
  before the first assignment; on success the edge is stored and four flags are cleared,
  two on the source object and two on the destination object.
\<close>

definition add_edge ::
  "('a, 'b) graph \<Rightarrow> 'a \<Rightarrow> 'a \<Rightarrow> 'b \<Rightarrow> ('a error + unit) \<times> ('a, 'b) graph" where
  "add_edge g node1_id node2_id attrs =
     (if has_key (node1_id, node2_id) (g_edges g)
      then (Inl (GraphError (EdgeExists node1_id node2_id)), g)
      else if \<not> has_key node1_id (g_nodes g) \<or> \<not> has_key node2_id (g_nodes g)
      then (Inl (GraphError EndpointsNotFound), g)
      else (Inr (),
            g\<lparr> g_edges :=
                 AList.update (node1_id, node2_id) (Edge node1_id node2_id attrs) (g_edges g),
               g_nodes :=
                 AList.map_entry node2_id (\<lambda>n. n\<lparr> flag_in := False, flag_in_neig := False \<rparr>)
                   (AList.map_entry node1_id
                      (\<lambda>n. n\<lparr> flag_out := False, flag_out_neig := False \<rparr>) (g_nodes g)) \<rparr>))"

definition edge :: "('a, 'b) graph \<Rightarrow> 'a \<Rightarrow> 'a \<Rightarrow> 'a error + ('a, 'b) edge" where
  "edge g node1_id node2_id =
     (case map_of (g_edges g) (node1_id, node2_id) of
        None \<Rightarrow> Inl (GraphError (EdgeNotFound node1_id node2_id))
      | Some e \<Rightarrow> Inr e)"

subsection \<open>Undirected graphs\<close>

text \<open>
  \<^verbatim>\<open>UndirectedGraph.add_edge\<close>: the self-loop test, then two calls of the base method. An
  exception of the second call leaves what the first call stored.
\<close>

definition undirected_add_edge ::
  "('a, 'b) graph \<Rightarrow> 'a \<Rightarrow> 'a \<Rightarrow> 'b \<Rightarrow> ('a error + unit) \<times> ('a, 'b) graph" where
  "undirected_add_edge g node1_id node2_id attrs =
     (if node1_id = node2_id then (Inl (GraphError SelfLoop), g)
      else (case add_edge g node1_id node2_id attrs of
              (Inl e, g') \<Rightarrow> (Inl e, g')
            | (Inr _, g') \<Rightarrow> add_edge g' node2_id node1_id attrs))"

text \<open>
  \<^verbatim>\<open>UndirectedGraph.degree\<close> counts the edge keys that contain the identifier and returns
  \<^verbatim>\<open>int(degree_count/2)\<close>; for a count that is not negative this is the integer quotient.
\<close>

definition degree :: "('a, 'b) graph \<Rightarrow> 'a \<Rightarrow> 'a error + int" where
  "degree g node_id =
     (if \<not> has_key node_id (g_nodes g) then Inl (GraphError (NodeNotFound node_id))
      else Inr (int (length (filter (\<lambda>edge_nodes. node_id = fst edge_nodes \<or> node_id = snd edge_nodes)
                               (map fst (g_edges g)))) div 2))"

subsection \<open>Directed graphs\<close>

text \<open>
  \<^verbatim>\<open>DirectedGraph.in_degree\<close>. The local variable \<^verbatim>\<open>in_degree_count\<close> is assigned only in the
  branch that recomputes, and the \<^verbatim>\<open>return\<close> statement reads that variable; when the flag is
  already set the read raises \<^verbatim>\<open>UnboundLocalError\<close>.
\<close>

definition in_degree ::
  "('a, 'b) graph \<Rightarrow> 'a \<Rightarrow> ('a error + int) \<times> ('a, 'b) graph" where
  "in_degree g node_id =
     (case map_of (g_nodes g) node_id of
        None \<Rightarrow> (Inl (GraphError (NodeNotFound node_id)), g)
      | Some n \<Rightarrow>
          if \<not> flag_in n then
            (let in_degree_count =
                   int (length (filter (\<lambda>edge_nodes. node_id = snd edge_nodes) (map fst (g_edges g))))
             in (Inr in_degree_count,
                 g\<lparr> g_nodes :=
                      AList.map_entry node_id
                        (\<lambda>n. n\<lparr> flag_in := True, n_in_degree := in_degree_count \<rparr>) (g_nodes g) \<rparr>))
          else (Inl UnboundLocalError, g))"

text \<open>\<^verbatim>\<open>DirectedGraph.out_degree\<close> returns the stored field on both paths.\<close>

definition out_degree ::
  "('a, 'b) graph \<Rightarrow> 'a \<Rightarrow> ('a error + int) \<times> ('a, 'b) graph" where
  "out_degree g node_id =
     (case map_of (g_nodes g) node_id of
        None \<Rightarrow> (Inl (GraphError (NodeNotFound node_id)), g)
      | Some n \<Rightarrow>
          if \<not> flag_out n then
            (let out_degree_count =
                   int (length (filter (\<lambda>edge_nodes. node_id = fst edge_nodes) (map fst (g_edges g))))
             in (Inr out_degree_count,
                 g\<lparr> g_nodes :=
                      AList.map_entry node_id
                        (\<lambda>n. n\<lparr> flag_out := True, n_out_degree := out_degree_count \<rparr>) (g_nodes g) \<rparr>))
          else (Inr (n_out_degree n), g))"

text \<open>
  The second loop of \<^verbatim>\<open>in_neighbors\<close>: for every edge key, in insertion order, the source is
  appended to the list of the destination's node object. A destination that is not a key
  of the node dictionary raises \<^verbatim>\<open>KeyError\<close>, a list that is still \<^verbatim>\<open>None\<close> raises
  \<^verbatim>\<open>AttributeError\<close>; both leave what was appended so far.
\<close>

fun append_in_neighbors ::
  "('a \<times> 'a) list \<Rightarrow> ('a \<times> ('a, 'b) node) list \<Rightarrow> ('a error + unit) \<times> ('a \<times> ('a, 'b) node) list" where
  "append_in_neighbors [] ns = (Inr (), ns)"
| "append_in_neighbors ((src, dest) # ks) ns =
     (case map_of ns dest of
        None \<Rightarrow> (Inl KeyError, ns)
      | Some n \<Rightarrow>
          (case n_in_neighbors n of
             None \<Rightarrow> (Inl AttributeError, ns)
           | Some l \<Rightarrow>
               append_in_neighbors ks
                 (AList.map_entry dest (\<lambda>n. n\<lparr> n_in_neighbors := Some (l @ [src]) \<rparr>) ns)))"

fun append_out_neighbors ::
  "('a \<times> 'a) list \<Rightarrow> ('a \<times> ('a, 'b) node) list \<Rightarrow> ('a error + unit) \<times> ('a \<times> ('a, 'b) node) list" where
  "append_out_neighbors [] ns = (Inr (), ns)"
| "append_out_neighbors ((src, dest) # ks) ns =
     (case map_of ns src of
        None \<Rightarrow> (Inl KeyError, ns)
      | Some n \<Rightarrow>
          (case n_out_neighbors n of
             None \<Rightarrow> (Inl AttributeError, ns)
           | Some l \<Rightarrow>
               append_out_neighbors ks
                 (AList.map_entry src (\<lambda>n. n\<lparr> n_out_neighbors := Some (l @ [dest]) \<rparr>) ns)))"

text \<open>
  \<^verbatim>\<open>DirectedGraph.in_neighbors\<close>. The method binds \<^verbatim>\<open>node\<close> to the queried object, and the
  recomputing branch then reuses the name \<^verbatim>\<open>node\<close> as the variable of its first loop, over
  \<^verbatim>\<open>self._nodes.values()\<close>. When that loop ends the name is bound to the last object of the
  dictionary, and \<^verbatim>\<open>return node._in_neighbors\<close> reads that object. With the flag already
  set no loop runs and the queried object is read.
\<close>

definition in_neighbors ::
  "('a, 'b) graph \<Rightarrow> 'a \<Rightarrow> ('a error + 'a list option) \<times> ('a, 'b) graph" where
  "in_neighbors g node_id =
     (case map_of (g_nodes g) node_id of
        None \<Rightarrow> (Inl (GraphError (NodeNotFound node_id)), g)
      | Some n \<Rightarrow>
          if \<not> flag_in_neig n then
            (let flagged = AList.map_entry node_id (\<lambda>n. n\<lparr> flag_in_neig := True \<rparr>) (g_nodes g);
                 cleared = map (\<lambda>(k, n). (k, n\<lparr> n_in_neighbors := Some [] \<rparr>)) flagged
             in (case append_in_neighbors (map fst (g_edges g)) cleared of
                   (Inl e, ns) \<Rightarrow> (Inl e, g\<lparr> g_nodes := ns \<rparr>)
                 | (Inr _, ns) \<Rightarrow>
                     (case rev ns of
                        [] \<Rightarrow> (Inr (n_in_neighbors n), g\<lparr> g_nodes := ns \<rparr>)
                      | (k, last_node) # _ \<Rightarrow> (Inr (n_in_neighbors last_node), g\<lparr> g_nodes := ns \<rparr>))))
          else (Inr (n_in_neighbors n), g))"

definition out_neighbors ::
  "('a, 'b) graph \<Rightarrow> 'a \<Rightarrow> ('a error + 'a list option) \<times> ('a, 'b) graph" where
  "out_neighbors g node_id =
     (case map_of (g_nodes g) node_id of
        None \<Rightarrow> (Inl (GraphError (NodeNotFound node_id)), g)
      | Some n \<Rightarrow>
          if \<not> flag_out_neig n then
            (let flagged = AList.map_entry node_id (\<lambda>n. n\<lparr> flag_out_neig := True \<rparr>) (g_nodes g);
                 cleared = map (\<lambda>(k, n). (k, n\<lparr> n_out_neighbors := Some [] \<rparr>)) flagged
             in (case append_out_neighbors (map fst (g_edges g)) cleared of
                   (Inl e, ns) \<Rightarrow> (Inl e, g\<lparr> g_nodes := ns \<rparr>)
                 | (Inr _, ns) \<Rightarrow>
                     (case rev ns of
                        [] \<Rightarrow> (Inr (n_out_neighbors n), g\<lparr> g_nodes := ns \<rparr>)
                      | (k, last_node) # _ \<Rightarrow> (Inr (n_out_neighbors last_node), g\<lparr> g_nodes := ns \<rparr>))))
          else (Inr (n_out_neighbors n), g))"

section \<open>PageRank\<close>

text \<open>
  Rank values are Python floats; they are modelled by exact rationals, so the model
  computes what the float operations approximate. The rank dictionary is an association
  list in insertion order. The two \<^verbatim>\<open>print\<close> calls of the loop are not modelled.
\<close>

type_synonym 'a ranks = "('a \<times> rat) list"

fun find_sinks_loop ::
  "('a, 'b) graph \<Rightarrow> 'a list \<Rightarrow> 'a list \<Rightarrow> ('a error + 'a list) \<times> ('a, 'b) graph" where
  "find_sinks_loop g [] sinks = (Inr sinks, g)"
| "find_sinks_loop g (node_id # rest) sinks =
     (case out_degree g node_id of
        (Inl e, g') \<Rightarrow> (Inl e, g')
      | (Inr k, g') \<Rightarrow> find_sinks_loop g' rest (if k = 0 then sinks @ [node_id] else sinks))"

definition find_sinks ::
  "('a::linorder, 'b) graph \<Rightarrow> ('a error + 'a list) \<times> ('a, 'b) graph" where
  "find_sinks digraph = find_sinks_loop digraph (nodes_id digraph) []"

text \<open>
  \<^verbatim>\<open>handle_sinks\<close> divides the entry of every sink in the dictionary it is given, in place,
  and sums the divided values. The result is the sum together with the dictionary as the
  caller sees it afterwards.
\<close>

fun handle_sinks_loop ::
  "'a ranks \<Rightarrow> 'a list \<Rightarrow> int \<Rightarrow> rat \<Rightarrow> ('a error + rat) \<times> 'a ranks" where
  "handle_sinks_loop pagerank_values [] tot_nodes sink_rank_sum = (Inr sink_rank_sum, pagerank_values)"
| "handle_sinks_loop pagerank_values (node_id # rest) tot_nodes sink_rank_sum =
     (case map_of pagerank_values node_id of
        None \<Rightarrow> (Inl KeyError, pagerank_values)
      | Some r \<Rightarrow>
          if tot_nodes = 0 then (Inl ZeroDivisionError, pagerank_values)
          else handle_sinks_loop (AList.update node_id (r / of_int tot_nodes) pagerank_values)
                 rest tot_nodes (sink_rank_sum + r / of_int tot_nodes))"

definition handle_sinks ::
  "'a ranks \<Rightarrow> 'a list \<Rightarrow> int \<Rightarrow> ('a error + rat) \<times> 'a ranks" where
  "handle_sinks pagerank_values sinks tot_nodes = handle_sinks_loop pagerank_values sinks tot_nodes 0"

text \<open>
  The inner loop of an iteration, over the list that \<^verbatim>\<open>in_neighbors\<close> returned for
  \<^verbatim>\<open>node_id\<close>. The augmented assignment reads \<^verbatim>\<open>new_pagerank_values[node_id]\<close>, then
  \<^verbatim>\<open>pagerank_values[neighbor_id]\<close>, then calls \<^verbatim>\<open>out_degree\<close>, then divides.
\<close>

fun add_contributions ::
  "('a, 'b) graph \<Rightarrow> 'a ranks \<Rightarrow> rat \<Rightarrow> 'a \<Rightarrow> 'a list \<Rightarrow> 'a ranks \<Rightarrow> ('a error + 'a ranks) \<times> ('a, 'b) graph" where
  "add_contributions g pagerank_values damping_factor node_id [] new_pagerank_values =
     (Inr new_pagerank_values, g)"
| "add_contributions g pagerank_values damping_factor node_id (neighbor_id # rest) new_pagerank_values =
     (case map_of new_pagerank_values node_id of
        None \<Rightarrow> (Inl KeyError, g)
      | Some cur \<Rightarrow>
          (case map_of pagerank_values neighbor_id of
             None \<Rightarrow> (Inl KeyError, g)
           | Some r \<Rightarrow>
               (case out_degree g neighbor_id of
                  (Inl e, g') \<Rightarrow> (Inl e, g')
                | (Inr k, g') \<Rightarrow>
                    if k = 0 then (Inl ZeroDivisionError, g')
                    else add_contributions g' pagerank_values damping_factor node_id rest
                           (AList.update node_id (cur + damping_factor * r / of_int k)
                              new_pagerank_values))))"

text \<open>The loop over \<^verbatim>\<open>digraph.nodes_id()\<close>; iterating over \<^verbatim>\<open>None\<close> raises \<^verbatim>\<open>TypeError\<close>.\<close>

fun propagate ::
  "('a, 'b) graph \<Rightarrow> 'a ranks \<Rightarrow> rat \<Rightarrow> 'a list \<Rightarrow> 'a ranks \<Rightarrow> ('a error + 'a ranks) \<times> ('a, 'b) graph" where
  "propagate g pagerank_values damping_factor [] new_pagerank_values = (Inr new_pagerank_values, g)"
| "propagate g pagerank_values damping_factor (node_id # rest) new_pagerank_values =
     (case in_neighbors g node_id of
        (Inl e, g') \<Rightarrow> (Inl e, g')
      | (Inr None, g') \<Rightarrow> (Inl TypeError, g')
      | (Inr (Some neighbors), g') \<Rightarrow>
          (case add_contributions g' pagerank_values damping_factor node_id neighbors new_pagerank_values of
             (Inl e, g'') \<Rightarrow> (Inl e, g'')
           | (Inr new', g'') \<Rightarrow> propagate g'' pagerank_values damping_factor rest new'))"

text \<open>The convergence measure: the sum, over the keys of \<^verbatim>\<open>pagerank_values\<close>, of the absolute differences.\<close>

fun l1_error :: "'a ranks \<Rightarrow> 'a ranks \<Rightarrow> 'a list \<Rightarrow> rat \<Rightarrow> 'a error + rat" where
  "l1_error new_pagerank_values pagerank_values [] acc = Inr acc"
| "l1_error new_pagerank_values pagerank_values (node_id # rest) acc =
     (case map_of new_pagerank_values node_id of
        None \<Rightarrow> Inl KeyError
      | Some a \<Rightarrow>
          (case map_of pagerank_values node_id of
             None \<Rightarrow> Inl KeyError
           | Some b \<Rightarrow> l1_error new_pagerank_values pagerank_values rest (acc + \<bar>a - b\<bar>)))"

text \<open>
  The \<^verbatim>\<open>for _ in range(num_iterations)\<close> loop, by recursion on the number of iterations left.
  \<^verbatim>\<open>handle_sinks\<close> receives the dictionary bound to \<^verbatim>\<open>pagerank_values\<close> itself, so everything
  after the call, the \<^verbatim>\<open>break\<close> and the final \<^verbatim>\<open>return\<close> included, sees the divided entries.
\<close>

fun iterate ::
  "nat \<Rightarrow> ('a::linorder, 'b) graph \<Rightarrow> 'a ranks \<Rightarrow> 'a list \<Rightarrow> int \<Rightarrow> rat \<Rightarrow> rat \<Rightarrow> rat
     \<Rightarrow> ('a error + 'a ranks) \<times> ('a, 'b) graph" where
  "iterate 0 g pagerank_values sinks_list num_nodes random_factor tol damping_factor =
     (Inr pagerank_values, g)"
| "iterate (Suc left) g pagerank_values sinks_list num_nodes random_factor tol damping_factor =
     (case handle_sinks pagerank_values sinks_list num_nodes of
        (Inl e, divided) \<Rightarrow> (Inl e, g)
      | (Inr s, divided) \<Rightarrow>
          (let sink_rank_sum = s * damping_factor;
               seeded = map (\<lambda>node_id. (node_id, random_factor + sink_rank_sum)) (nodes_id g)
           in (case propagate g divided damping_factor (nodes_id g) seeded of
                 (Inl e, g') \<Rightarrow> (Inl e, g')
               | (Inr new_pagerank_values, g') \<Rightarrow>
                   (case l1_error new_pagerank_values divided (map fst divided) 0 of
                      Inl e \<Rightarrow> (Inl e, g')
                    | Inr err \<Rightarrow>
                        if err < tol then (Inr divided, g')
                        else iterate left g' new_pagerank_values sinks_list num_nodes
                               random_factor tol damping_factor))))"

definition pagerank ::
  "('a::linorder, 'b) graph \<Rightarrow> int \<Rightarrow> rat \<Rightarrow> rat \<Rightarrow> ('a error + 'a ranks) \<times> ('a, 'b) graph" where
  "pagerank digraph num_iterations tol damping_factor =
     (let num_nodes = len_graph digraph
      in if num_nodes = 0 then (Inl ZeroDivisionError, digraph)
         else
           (let initial_pagerank = 1 / of_int num_nodes;
                pagerank_values = map (\<lambda>node_id. (node_id, initial_pagerank)) (nodes_id digraph);
                random_factor = (1 - damping_factor) / of_int num_nodes
            in (case find_sinks digraph of
                  (Inl e, g') \<Rightarrow> (Inl e, g')
                | (Inr sinks_list, g') \<Rightarrow>
                    iterate (nat num_iterations) g' pagerank_values sinks_list num_nodes
                      random_factor tol damping_factor)))"

section \<open>Callers and concrete graphs\<close>

text \<open>
  A caller builds a graph by a sequence of \<^verbatim>\<open>add_node\<close> and \<^verbatim>\<open>add_edge\<close> calls. A call that
  raises leaves the object as it was at the raise, and the caller may go on using it.
\<close>

datatype ('a, 'b) mutation = AddNode 'a 'b | AddEdge 'a 'a 'b

fun directed_step ::
  "('a, 'b) graph \<Rightarrow> ('a, 'b) mutation \<Rightarrow> ('a error + unit) \<times> ('a, 'b) graph" where
  "directed_step g (AddNode i attrs) = add_node g i attrs"
| "directed_step g (AddEdge i j attrs) = add_edge g i j attrs"

fun undirected_step ::
  "('a, 'b) graph \<Rightarrow> ('a, 'b) mutation \<Rightarrow> ('a error + unit) \<times> ('a, 'b) graph" where
  "undirected_step g (AddNode i attrs) = add_node g i attrs"
| "undirected_step g (AddEdge i j attrs) = undirected_add_edge g i j attrs"

definition directed_run :: "('a, 'b) mutation list \<Rightarrow> ('a, 'b) graph" where
  "directed_run ms = fold (\<lambda>m g. snd (directed_step g m)) ms empty_graph"

definition undirected_run :: "('a, 'b) mutation list \<Rightarrow> ('a, 'b) graph" where
  "undirected_run ms = fold (\<lambda>m g. snd (undirected_step g m)) ms empty_graph"

text \<open>The nodes adjacent to a node: the second components of the edge keys that start at it.\<close>

definition adjacent :: "('a, 'b) graph \<Rightarrow> 'a \<Rightarrow> 'a set" where
  "adjacent g a = {b. has_key (a, b) (g_edges g)}"

text \<open>What every undirected graph satisfies: the edge keys are symmetric and loop-free, and mirror edges carry equal attributes.\<close>

definition mirrored :: "('a, 'b) graph \<Rightarrow> bool" where
  "mirrored g \<longleftrightarrow>
     distinct (map fst (g_edges g)) \<and>
     (\<forall>a b. has_key (a, b) (g_edges g) = has_key (b, a) (g_edges g)) \<and>
     (\<forall>a. \<not> has_key (a, a) (g_edges g)) \<and>
     (\<forall>a b ea eb. map_of (g_edges g) (a, b) = Some ea \<longrightarrow> map_of (g_edges g) (b, a) = Some eb
        \<longrightarrow> e_attributes ea = e_attributes eb)"

definition rank_sum :: "'a ranks \<Rightarrow> rat" where
  "rank_sum r = sum_list (map snd r)"

text \<open>The graph of the doctests of \<^verbatim>\<open>pagerank\<close> and \<^verbatim>\<open>find_sinks\<close>, freshly built.\<close>

definition airports :: "(int, unit) graph" where
  "airports = directed_run
     [AddNode 0 (), AddNode 1 (), AddNode 2 (), AddEdge 0 1 (), AddEdge 0 2 (), AddEdge 1 0 ()]"

text \<open>The first graph of the doctest of \<^verbatim>\<open>DirectedGraph\<close>.\<close>

definition one_edge :: "(int, unit) graph" where
  "one_edge = directed_run [AddNode 1 (), AddNode 2 (), AddEdge 1 2 ()]"

definition two_isolated :: "(int, unit) graph" where
  "two_isolated = directed_run [AddNode 0 (), AddNode 1 ()]"

definition three_isolated :: "(int, unit) graph" where
  "three_isolated = directed_run [AddNode 1 (), AddNode 2 (), AddNode 3 ()]"

text \<open>The undirected triangle of \<^verbatim>\<open>test.py\<close>.\<close>

definition triangle :: "(int, unit) mutation list" where
  "triangle = [AddNode 1 (), AddNode 2 (), AddNode 3 (), AddEdge 1 2 (), AddEdge 2 3 (), AddEdge 3 1 ()]"

section \<open>Association lists\<close>

lemma has_key_iff: "has_key k d \<longleftrightarrow> k \<in> fst ` set d"
  by (simp add: has_key_def map_of_eq_None_iff)

lemma keys_map_entry: "map fst (AList.map_entry k f d) = map fst d"
  by (induction d) auto

lemma has_key_map_entry: "has_key j (AList.map_entry k f d) = has_key j d"
  by (simp add: has_key_iff AList.dom_map_entry)

section \<open>The degree queries\<close>

lemma out_degree_present:
  assumes "has_key i (g_nodes g)"
  shows "\<exists>k g'. out_degree g i = (Inr k, g') \<and> map fst (g_nodes g') = map fst (g_nodes g)"
proof -
  from assms obtain n where n: "map_of (g_nodes g) i = Some n"
    by (auto simp: has_key_def)
  show ?thesis
    by (cases "flag_out n") (simp_all add: out_degree_def n Let_def keys_map_entry)
qed

lemma find_sinks_loop_total:
  "set ids \<subseteq> fst ` set (g_nodes g) \<Longrightarrow>
     \<exists>sinks g'. find_sinks_loop g ids acc = (Inr sinks, g')"
proof (induction ids arbitrary: g acc)
  case Nil
  show ?case by simp
next
  case (Cons i ids)
  from Cons.prems have "has_key i (g_nodes g)"
    by (simp add: has_key_iff)
  from out_degree_present [OF this]
  obtain k g1 where od: "out_degree g i = (Inr k, g1)"
    and keys: "map fst (g_nodes g1) = map fst (g_nodes g)"
    by blast
  have "fst ` set (g_nodes g1) = fst ` set (g_nodes g)"
    using keys by (metis set_map)
  with Cons.prems have "set ids \<subseteq> fst ` set (g_nodes g1)"
    by simp
  from Cons.IH [OF this] show ?case
    by (simp add: od)
qed

lemma find_sinks_total: "\<exists>sinks g'. find_sinks g = (Inr sinks, g')"
  unfolding find_sinks_def nodes_id_def
  by (rule find_sinks_loop_total) simp

section \<open>PageRank before the first iteration\<close>

text \<open>
  Claim C10. On a directed graph with at least one node, \<^verbatim>\<open>pagerank\<close> with
  \<^verbatim>\<open>num_iterations = 0\<close> runs no iteration and returns the dictionary that maps every node
  identifier of the graph, in sorted order, to \<open>1/N\<close>, and holds no other key.
\<close>

theorem pagerank_zero_iterations_uniform:
  assumes "1 \<le> len_graph g"
  shows "fst (pagerank g 0 tol damping_factor) =
           Inr (map (\<lambda>node_id. (node_id, 1 / of_int (len_graph g))) (nodes_id g))
         \<and> (\<forall>i. map_of (map (\<lambda>node_id. (node_id, 1 / of_int (len_graph g))) (nodes_id g)) i =
                 (if has_key i (g_nodes g) then Some (1 / of_int (len_graph g)) else None))"
proof -
  obtain sinks g' where fs: "find_sinks g = (Inr sinks, g')"
    using find_sinks_total by blast
  from assms have nz: "len_graph g \<noteq> 0" by simp
  have run: "fst (pagerank g 0 tol damping_factor) =
      Inr (map (\<lambda>node_id. (node_id, 1 / of_int (len_graph g))) (nodes_id g))"
    by (simp add: pagerank_def Let_def nz fs)
  have look: "map_of (map (\<lambda>node_id. (node_id, 1 / of_int (len_graph g))) (nodes_id g)) i =
      (if has_key i (g_nodes g) then Some (1 / of_int (len_graph g)) else None)" for i
    by (simp add: map_of_map_restrict restrict_map_def nodes_id_def has_key_iff)
  from run look show ?thesis by blast
qed

text \<open>The doctest graph has three nodes; with no iteration every rank is one third.\<close>

theorem pagerank_zero_iterations_uniform_witness:
  "1 \<le> len_graph airports \<and>
   fst (pagerank airports 0 (1 / 1000000) (85 / 100)) = Inr [(0, 1 / 3), (1, 1 / 3), (2, 1 / 3)]"
proof -
  have n: "1 \<le> len_graph airports" by code_simp
  have u: "map (\<lambda>node_id. (node_id, 1 / of_int (len_graph airports))) (nodes_id airports)
             = [(0, 1 / 3), (1, 1 / 3), (2, 1 / 3 :: rat)]"
    by code_simp
  from pagerank_zero_iterations_uniform [OF n, of "1 / 1000000" "85 / 100"]
  have "fst (pagerank airports 0 (1 / 1000000) (85 / 100)) =
          Inr (map (\<lambda>node_id. (node_id, 1 / of_int (len_graph airports))) (nodes_id airports))"
    by (rule conjunct1)
  then have "fst (pagerank airports 0 (1 / 1000000) (85 / 100)) = Inr [(0, 1 / 3), (1, 1 / 3), (2, 1 / 3)]"
    by (simp only: u)
  with n show ?thesis by (rule_tac conjI)
qed

section \<open>PageRank on a graph without nodes\<close>

text \<open>
  Claim C6, as the code has it. \<^verbatim>\<open>pagerank\<close> has no test for an empty graph and the module
  defines no exception of its own: on a graph with zero nodes the first division,
  \<^verbatim>\<open>1 / num_nodes\<close>, raises \<^verbatim>\<open>ZeroDivisionError\<close>, which reaches the caller, before any
  iteration and with the graph untouched.
\<close>

theorem pagerank_no_nodes_zero_division:
  assumes "len_graph g = 0"
  shows "pagerank g num_iterations tol damping_factor = (Inl ZeroDivisionError, g)"
  using assms by (simp add: pagerank_def)

theorem pagerank_no_nodes_zero_division_witness:
  "len_graph (empty_graph :: (int, unit) graph) = 0 \<and>
   pagerank (empty_graph :: (int, unit) graph) 100 (1 / 1000000) (85 / 100)
     = (Inl ZeroDivisionError, empty_graph)"
proof -
  have z: "len_graph (empty_graph :: (int, unit) graph) = 0"
    by (simp add: len_graph_def empty_graph_def)
  from pagerank_no_nodes_zero_division [OF z] z show ?thesis by simp
qed

text \<open>
  Claim C6 as stated fails: on the graph built by no call at all, with the default
  parameters, the exception that reaches the caller is the arithmetic one.
\<close>

theorem pagerank_no_nodes_counterexample:
  "fst (pagerank (directed_run [] :: (int, unit) graph) 100 (1 / 1000000) (85 / 100))
     = Inl ZeroDivisionError"
  by code_simp

section \<open>The cached queries at concrete graphs\<close>

text \<open>
  Claim C2 fails on the code. The graph has the nodes 1 and 2, added in this order, and the
  single edge (1, 2). The first call \<^verbatim>\<open>in_neighbors(1)\<close> returns \<^verbatim>\<open>[1]\<close>, the in-neighbours of
  node 2, which is the last node of the dictionary; node 1 has no in-neighbour, and the
  second call returns \<^verbatim>\<open>[]\<close>. The first call \<^verbatim>\<open>out_neighbors(1)\<close> returns \<^verbatim>\<open>[]\<close>, the
  out-neighbours of node 2, although the edge (1, 2) leaves node 1.
\<close>

theorem neighbors_first_query_reads_last_node:
  "map fst (g_edges one_edge) = [(1, 2)] \<and>
   fst (in_neighbors one_edge 1) = Inr (Some [1]) \<and>
   fst (in_neighbors (snd (in_neighbors one_edge 1)) 1) = Inr (Some []) \<and>
   fst (out_neighbors one_edge 1) = Inr (Some []) \<and>
   fst (out_neighbors (snd (out_neighbors one_edge 1)) 1) = Inr (Some [2])"
  by code_simp

text \<open>
  Claim C3 fails on the code. On the same graph the first call \<^verbatim>\<open>in_degree(2)\<close> returns 1;
  the second call, with no \<^verbatim>\<open>add_edge\<close> in between, raises \<^verbatim>\<open>UnboundLocalError\<close> although
  node 2 is present.
\<close>

theorem in_degree_second_call_raises:
  "has_key 2 (g_nodes one_edge) \<and>
   fst (in_degree one_edge 2) = Inr 1 \<and>
   fst (in_degree (snd (in_degree one_edge 2)) 2) = Inl UnboundLocalError"
  by code_simp

text \<open>
  Claim C4 fails on the code. The graph has the nodes 1, 2, 3 and no edge. \<^verbatim>\<open>in_degree(3)\<close>
  returns 0; then \<^verbatim>\<open>add_edge(1, 2)\<close> succeeds; then \<^verbatim>\<open>in_degree(3)\<close> raises
  \<^verbatim>\<open>UnboundLocalError\<close> instead of returning 0 again. The out-degree of node 1 goes from 0 to 1
  and the out-degree of node 3 stays 0.
\<close>

theorem in_degree_of_untouched_node_raises_after_add_edge:
  "fst (in_degree three_isolated 3) = Inr 0 \<and>
   fst (add_edge (snd (in_degree three_isolated 3)) 1 2 ()) = Inr () \<and>
   fst (in_degree (snd (add_edge (snd (in_degree three_isolated 3)) 1 2 ())) 3)
     = Inl UnboundLocalError \<and>
   fst (out_degree three_isolated 1) = Inr 0 \<and>
   fst (out_degree (snd (add_edge (snd (out_degree three_isolated 1)) 1 2 ())) 1) = Inr 1 \<and>
   fst (out_degree three_isolated 3) = Inr 0 \<and>
   fst (out_degree (snd (add_edge (snd (out_degree three_isolated 3)) 1 2 ())) 3) = Inr 0"
  by code_simp

text \<open>
  At this input both endpoints of the added edge are present and the pair is new, so the
  call of \<^verbatim>\<open>add_edge\<close> is a successful one; the query that follows does not return the
  value 0 it returned before.
\<close>

theorem in_degree_of_untouched_node_raises_after_add_edge_witness:
  "has_key 1 (g_nodes (snd (in_degree three_isolated 3))) \<and>
   has_key 2 (g_nodes (snd (in_degree three_isolated 3))) \<and>
   \<not> has_key (1, 2) (g_edges (snd (in_degree three_isolated 3))) \<and>
   fst (in_degree (snd (add_edge (snd (in_degree three_isolated 3)) 1 2 ())) 3) \<noteq> Inr 0"
proof -
  have k1: "has_key 1 (g_nodes (snd (in_degree three_isolated 3)))" by code_simp
  have k2: "has_key 2 (g_nodes (snd (in_degree three_isolated 3)))" by code_simp
  have k3: "\<not> has_key (1, 2) (g_edges (snd (in_degree three_isolated 3)))" by code_simp
  from in_degree_of_untouched_node_raises_after_add_edge
  have "fst (in_degree (snd (add_edge (snd (in_degree three_isolated 3)) 1 2 ())) 3)
          = Inl UnboundLocalError"
    by (rule conjunct1 [OF conjunct2 [OF conjunct2]])
  then have r: "fst (in_degree (snd (add_edge (snd (in_degree three_isolated 3)) 1 2 ())) 3) \<noteq> Inr 0"
    by simp
  show ?thesis
    by (rule conjI [OF k1 conjI [OF k2 conjI [OF k3 r]]])
qed

section \<open>PageRank at concrete graphs\<close>

text \<open>
  Claim C1 fails on the code. The graph has the nodes 0 and 1 and no edge, so both nodes are
  sinks. Before the first iteration both ranks are 1/2. With tolerance \<open>10\<^sup>-\<^sup>6\<close> the first
  iteration does not converge and its new dictionary, again 1/2 and 1/2, is adopted. With
  tolerance 1 the first iteration converges, and the dictionary returned holds 1/4 and
  1/4: the ranks of the sinks divided by \<open>N = 2\<close>.
\<close>

theorem pagerank_converged_returns_divided_sinks:
  "fst (pagerank two_isolated 0 1 (85 / 100)) = Inr [(0, 1 / 2), (1, 1 / 2)] \<and>
   fst (pagerank two_isolated 1 (1 / 1000000) (85 / 100)) = Inr [(0, 1 / 2), (1, 1 / 2)] \<and>
   fst (pagerank two_isolated 100 1 (85 / 100)) = Inr [(0, 1 / 4), (1, 1 / 4)]"
  by code_simp

text \<open>
  Claim C5 fails on the code. On the freshly built doctest graph one iteration is run and
  its dictionary is adopted and returned; the ranks sum to 103/120. On the graph of two
  isolated nodes with tolerance 1 the dictionary returned at convergence sums to 1/2.
\<close>

theorem pagerank_rank_sum_not_one:
  "map_sum id rank_sum (fst (pagerank airports 1 (1 / 1000000) (85 / 100))) = Inr (103 / 120) \<and>
   map_sum id rank_sum (fst (pagerank two_isolated 100 1 (85 / 100))) = Inr (1 / 2)"
  by code_simp

text \<open>
  Claim C7 fails on the code. On the freshly built graph with nodes 0, 1, 2 and edges
  (0, 1), (0, 2), (1, 0), one iteration with damping factor 0.85 gives rank 103/360, about
  0.28611, to all three nodes; the rank of node 0 is not within 0.001 of 0.42778. A second
  run on the same graph object, whose neighbour lists are then cached, gives 77/180, about
  0.42778, to node 0.
\<close>

theorem pagerank_doctest_graph_first_run:
  "fst (pagerank airports 1 (1 / 1000000) (85 / 100))
     = Inr [(0, 103 / 360), (1, 103 / 360), (2, 103 / 360)] \<and>
   \<not> \<bar>103 / 360 - 42778 / 100000\<bar> < (1 / 1000 :: rat) \<and>
   fst (pagerank (snd (pagerank airports 1 (1 / 1000000) (85 / 100))) 1 (1 / 1000000) (85 / 100))
     = Inr [(0, 77 / 180), (1, 103 / 360), (2, 103 / 360)]"
  by code_simp

section \<open>Adding nodes and edges\<close>

lemma has_key_update: "has_key k (AList.update k' v d) \<longleftrightarrow> k = k' \<or> has_key k d"
  by (auto simp: has_key_iff AList.dom_update)

lemma add_edge_cases:
  "add_edge g a b attrs =
     (if has_key (a, b) (g_edges g) then (Inl (GraphError (EdgeExists a b)), g)
      else if \<not> has_key a (g_nodes g) \<or> \<not> has_key b (g_nodes g)
      then (Inl (GraphError EndpointsNotFound), g)
      else (Inr (), snd (add_edge g a b attrs)))"
  by (simp add: add_edge_def)

lemma add_edge_success_edges:
  assumes "\<not> has_key (a, b) (g_edges g)" "has_key a (g_nodes g)" "has_key b (g_nodes g)"
  shows "g_edges (snd (add_edge g a b attrs)) = AList.update (a, b) (Edge a b attrs) (g_edges g)"
    and "map fst (g_nodes (snd (add_edge g a b attrs))) = map fst (g_nodes g)"
  using assms by (simp_all add: add_edge_def keys_map_entry)

lemma add_edge_failure_unchanged:
  "add_edge g a b attrs = (Inl e, g') \<Longrightarrow> g' = g"
  by (auto simp: add_edge_def split: if_splits)

lemma add_node_failure_unchanged:
  "add_node g i attrs = (Inl e, g') \<Longrightarrow> g' = g"
  by (auto simp: add_node_def split: if_splits)

lemma add_node_edges: "g_edges (snd (add_node g i attrs)) = g_edges g"
  by (simp add: add_node_def)

lemma undirected_add_edge_mirrored:
  assumes m: "mirrored g"
  shows "mirrored (snd (undirected_add_edge g a b attrs))
         \<and> (\<forall>e. fst (undirected_add_edge g a b attrs) = Inl e \<longrightarrow> snd (undirected_add_edge g a b attrs) = g)"
proof (cases "a = b \<or> has_key (a, b) (g_edges g) \<or> \<not> has_key a (g_nodes g) \<or> \<not> has_key b (g_nodes g)")
  case True
  then have "undirected_add_edge g a b attrs = (fst (undirected_add_edge g a b attrs), g)"
    by (auto simp: undirected_add_edge_def add_edge_def)
  then have "snd (undirected_add_edge g a b attrs) = g"
    by (metis snd_conv)
  with m show ?thesis by simp
next
  case False
  then have ne: "a \<noteq> b" and nk: "\<not> has_key (a, b) (g_edges g)"
    and ka: "has_key a (g_nodes g)" and kb: "has_key b (g_nodes g)"
    by auto
  define g1 where "g1 = snd (add_edge g a b attrs)"
  have first: "add_edge g a b attrs = (Inr (), g1)"
    using nk ka kb by (simp add: g1_def add_edge_def)
  have e1: "g_edges g1 = AList.update (a, b) (Edge a b attrs) (g_edges g)"
    and n1: "map fst (g_nodes g1) = map fst (g_nodes g)"
    unfolding g1_def using add_edge_success_edges [OF nk ka kb] by auto
  from m have nk': "\<not> has_key (b, a) (g_edges g)"
    using nk by (simp add: mirrored_def)
  have nk1: "\<not> has_key (b, a) (g_edges g1)"
    using nk' ne by (simp add: e1 has_key_update)
  have ka1: "has_key a (g_nodes g1)" and kb1: "has_key b (g_nodes g1)"
    using ka kb n1 by (metis has_key_iff set_map)+
  define g2 where "g2 = snd (add_edge g1 b a attrs)"
  have second: "add_edge g1 b a attrs = (Inr (), g2)"
    using nk1 ka1 kb1 by (simp add: g2_def add_edge_def)
  have e2: "g_edges g2 = AList.update (b, a) (Edge b a attrs) (AList.update (a, b) (Edge a b attrs) (g_edges g))"
    unfolding g2_def using add_edge_success_edges(1) [OF nk1 kb1 ka1] by (simp add: e1)
  have res: "undirected_add_edge g a b attrs = (Inr (), g2)"
    using ne by (simp add: undirected_add_edge_def first second)
  have d2: "distinct (map fst (g_edges g2))"
    using m by (simp add: e2 mirrored_def AList.distinct_update)
  have sym: "has_key (x, y) (g_edges g) = has_key (y, x) (g_edges g)" for x y
    using m by (simp add: mirrored_def)
  have s2: "has_key (x, y) (g_edges g2) = has_key (y, x) (g_edges g2)" for x y
    using sym [of x y] by (auto simp add: e2 has_key_update)
  have noloop: "\<not> has_key (x, x) (g_edges g)" for x
    using m by (simp add: mirrored_def)
  have l2: "\<not> has_key (x, x) (g_edges g2)" for x
    using noloop [of x] ne by (auto simp add: e2 has_key_update)
  have att: "map_of (g_edges g) (x, y) = Some ea \<Longrightarrow> map_of (g_edges g) (y, x) = Some eb
      \<Longrightarrow> e_attributes ea = e_attributes eb" for x y ea eb
    using m unfolding mirrored_def by blast
  have a2: "e_attributes ea = e_attributes eb"
    if p: "map_of (g_edges g2) (x, y) = Some ea" and q: "map_of (g_edges g2) (y, x) = Some eb"
    for x y ea eb
  proof -
    consider "(x, y) = (a, b)" | "(x, y) = (b, a)" | "(x, y) \<noteq> (a, b)" "(x, y) \<noteq> (b, a)"
      by blast
    then show ?thesis
    proof cases
      case 1
      with p q ne show ?thesis
        by (simp add: e2 AList.update_conv' Edge_def) (auto simp: Edge_def)
    next
      case 2
      with p q ne show ?thesis
        by (simp add: e2 AList.update_conv' Edge_def) (auto simp: Edge_def)
    next
      case 3
      then have "(y, x) \<noteq> (a, b)" "(y, x) \<noteq> (b, a)" by auto
      with 3 p q have "map_of (g_edges g) (x, y) = Some ea" "map_of (g_edges g) (y, x) = Some eb"
        by (auto simp add: e2 AList.update_conv' split: if_splits)
      then show ?thesis by (rule att)
    qed
  qed
  have "mirrored g2"
    unfolding mirrored_def using d2 s2 l2 a2 by blast
  with res show ?thesis by simp
qed

lemma mirrored_empty: "mirrored empty_graph"
  by (simp add: mirrored_def empty_graph_def has_key_def)

lemma mirrored_add_node: "mirrored g \<Longrightarrow> mirrored (snd (add_node g i attrs))"
  unfolding mirrored_def add_node_edges .

lemma mirrored_step: "mirrored g \<Longrightarrow> mirrored (snd (undirected_step g m))"
proof (cases m)
  case (AddNode i attrs)
  assume "mirrored g"
  then show ?thesis
    unfolding AddNode undirected_step.simps by (rule mirrored_add_node)
next
  case (AddEdge a b attrs)
  assume "mirrored g"
  from undirected_add_edge_mirrored [OF this, of a b attrs] show ?thesis
    unfolding AddEdge undirected_step.simps by (rule conjunct1)
qed

lemma mirrored_fold:
  "mirrored g \<Longrightarrow> mirrored (fold (\<lambda>m g. snd (undirected_step g m)) ms g)"
proof (induction ms arbitrary: g)
  case Nil
  then show ?case by simp
next
  case (Cons m ms)
  from Cons.prems have "mirrored (snd (undirected_step g m))"
    by (rule mirrored_step)
  then have "mirrored (fold (\<lambda>m g. snd (undirected_step g m)) ms (snd (undirected_step g m)))"
    by (rule Cons.IH)
  then show ?case by simp
qed

lemma mirrored_run: "mirrored (undirected_run ms)"
  unfolding undirected_run_def by (rule mirrored_fold) (rule mirrored_empty)

text \<open>
  Claim C9. A failing add leaves the graph as it was, cached flags included. \<^verbatim>\<open>add_node\<close>
  with an identifier that is present raises and changes nothing. \<^verbatim>\<open>add_edge\<close>, in the base
  form and in the undirected form, raises when the ordered pair is present or an endpoint
  is absent, and changes nothing then; every failure of the base form changes nothing, and
  so does every failure of the undirected form on a graph built by the undirected
  operations.
\<close>

theorem failing_add_leaves_graph_unmodified:
  shows "(has_key i (g_nodes g) \<longrightarrow> add_node g i attrs = (Inl (GraphError (NodeExists i)), g))
       \<and> (\<forall>e g'. add_node g i attrs = (Inl e, g') \<longrightarrow> g' = g)
       \<and> (has_key (a, b) (g_edges g) \<or> \<not> has_key a (g_nodes g) \<or> \<not> has_key b (g_nodes g)
            \<longrightarrow> (\<exists>e. add_edge g a b attrs = (Inl e, g)))
       \<and> (\<forall>e g'. add_edge g a b attrs = (Inl e, g') \<longrightarrow> g' = g)
       \<and> (has_key (a, b) (g_edges g) \<or> \<not> has_key a (g_nodes g) \<or> \<not> has_key b (g_nodes g)
            \<longrightarrow> (\<exists>e. undirected_add_edge g a b attrs = (Inl e, g)))
       \<and> (\<forall>e g'. undirected_add_edge (undirected_run ms) a b attrs = (Inl e, g')
            \<longrightarrow> g' = undirected_run ms)"
proof -
  have p1: "has_key i (g_nodes g) \<longrightarrow> add_node g i attrs = (Inl (GraphError (NodeExists i)), g)"
    by (simp add: add_node_def)
  have p2: "\<forall>e g'. add_node g i attrs = (Inl e, g') \<longrightarrow> g' = g"
    by (intro allI impI) (rule add_node_failure_unchanged)
  have base: "\<exists>e. add_edge g a b attrs = (Inl e, g)"
    if h: "has_key (a, b) (g_edges g) \<or> \<not> has_key a (g_nodes g) \<or> \<not> has_key b (g_nodes g)"
  proof (cases "has_key (a, b) (g_edges g)")
    case True
    then show ?thesis by (simp add: add_edge_def)
  next
    case False
    with h have "\<not> has_key a (g_nodes g) \<or> \<not> has_key b (g_nodes g)" by simp
    with False have "add_edge g a b attrs = (Inl (GraphError EndpointsNotFound), g)"
      unfolding add_edge_def by (simp only: if_False if_True)
    then show ?thesis by (rule exI)
  qed
  have p3: "has_key (a, b) (g_edges g) \<or> \<not> has_key a (g_nodes g) \<or> \<not> has_key b (g_nodes g)
            \<longrightarrow> (\<exists>e. add_edge g a b attrs = (Inl e, g))"
    by (rule impI) (rule base)
  have p4: "\<forall>e g'. add_edge g a b attrs = (Inl e, g') \<longrightarrow> g' = g"
    by (intro allI impI) (rule add_edge_failure_unchanged)
  have p5: "has_key (a, b) (g_edges g) \<or> \<not> has_key a (g_nodes g) \<or> \<not> has_key b (g_nodes g)
            \<longrightarrow> (\<exists>e. undirected_add_edge g a b attrs = (Inl e, g))"
  proof
    assume "has_key (a, b) (g_edges g) \<or> \<not> has_key a (g_nodes g) \<or> \<not> has_key b (g_nodes g)"
    then obtain e where e: "add_edge g a b attrs = (Inl e, g)"
      using base by blast
    show "\<exists>e. undirected_add_edge g a b attrs = (Inl e, g)"
      by (cases "a = b") (simp_all add: undirected_add_edge_def e)
  qed
  have p6: "\<forall>e g'. undirected_add_edge (undirected_run ms) a b attrs = (Inl e, g')
            \<longrightarrow> g' = undirected_run ms"
  proof (intro allI impI)
    fix e g'
    assume r: "undirected_add_edge (undirected_run ms) a b attrs = (Inl e, g')"
    from undirected_add_edge_mirrored [OF mirrored_run, of ms a b attrs]
    have "\<forall>e. fst (undirected_add_edge (undirected_run ms) a b attrs) = Inl e
            \<longrightarrow> snd (undirected_add_edge (undirected_run ms) a b attrs) = undirected_run ms"
      by (rule conjunct2)
    then show "g' = undirected_run ms"
      by (simp add: r)
  qed
  show ?thesis
    by (rule conjI [OF p1 conjI [OF p2 conjI [OF p3 conjI [OF p4 conjI [OF p5 p6]]]]])
qed

text \<open>
  On the directed graph with the edge (1, 2): adding node 1 again and adding the edge
  (1, 2) again both fail and return the same graph. On the undirected triangle, adding
  the edge (1, 2) again fails and returns the same graph.
\<close>

theorem failing_add_leaves_graph_unmodified_witness:
  "has_key 1 (g_nodes one_edge) \<and>
   has_key (1, 2) (g_edges one_edge) \<and>
   add_node one_edge 1 () = (Inl (GraphError (NodeExists 1)), one_edge) \<and>
   (\<exists>e. add_edge one_edge 1 2 () = (Inl e, one_edge)) \<and>
   (\<exists>e. undirected_add_edge one_edge 1 2 () = (Inl e, one_edge)) \<and>
   fst (undirected_add_edge (undirected_run triangle) 1 2 ()) = Inl (GraphError (EdgeExists 1 2)) \<and>
   snd (undirected_add_edge (undirected_run triangle) 1 2 ()) = undirected_run triangle"
proof -
  note T = failing_add_leaves_graph_unmodified
    [where g = one_edge and i = 1 and a = 1 and b = 2 and attrs = "()" and ms = triangle]
  have k: "has_key 1 (g_nodes one_edge)" by code_simp
  have ke: "has_key (1, 2) (g_edges one_edge)" by code_simp
  then have h: "has_key (1, 2) (g_edges one_edge) \<or> \<not> has_key 1 (g_nodes one_edge)
      \<or> \<not> has_key 2 (g_nodes one_edge)"
    by (rule disjI1)
  from T have "has_key 1 (g_nodes one_edge) \<longrightarrow>
      add_node one_edge 1 () = (Inl (GraphError (NodeExists 1)), one_edge)"
    by (rule conjunct1)
  then have c1: "add_node one_edge 1 () = (Inl (GraphError (NodeExists 1)), one_edge)"
    using k by (rule mp)
  from T have "has_key (1, 2) (g_edges one_edge) \<or> \<not> has_key 1 (g_nodes one_edge)
      \<or> \<not> has_key 2 (g_nodes one_edge) \<longrightarrow> (\<exists>e. add_edge one_edge 1 2 () = (Inl e, one_edge))"
    by (rule conjunct1 [OF conjunct2 [OF conjunct2]])
  then have c2: "\<exists>e. add_edge one_edge 1 2 () = (Inl e, one_edge)"
    using h by (rule mp)
  from T have "has_key (1, 2) (g_edges one_edge) \<or> \<not> has_key 1 (g_nodes one_edge)
      \<or> \<not> has_key 2 (g_nodes one_edge) \<longrightarrow> (\<exists>e. undirected_add_edge one_edge 1 2 () = (Inl e, one_edge))"
    by (rule conjunct1 [OF conjunct2 [OF conjunct2 [OF conjunct2 [OF conjunct2]]]])
  then have c3: "\<exists>e. undirected_add_edge one_edge 1 2 () = (Inl e, one_edge)"
    using h by (rule mp)
  have f: "fst (undirected_add_edge (undirected_run triangle) 1 2 ()) = Inl (GraphError (EdgeExists 1 2))"
    by code_simp
  then have r: "undirected_add_edge (undirected_run triangle) 1 2 ()
      = (Inl (GraphError (EdgeExists 1 2)), snd (undirected_add_edge (undirected_run triangle) 1 2 ()))"
    by (simp add: prod_eq_iff)
  from T have "\<forall>e g'. undirected_add_edge (undirected_run triangle) 1 2 () = (Inl e, g')
      \<longrightarrow> g' = undirected_run triangle"
    by (rule conjunct2 [OF conjunct2 [OF conjunct2 [OF conjunct2 [OF conjunct2]]]])
  then have c4: "snd (undirected_add_edge (undirected_run triangle) 1 2 ()) = undirected_run triangle"
    using r by blast
  show ?thesis
    by (rule conjI [OF k conjI [OF ke conjI [OF c1 conjI [OF c2 conjI [OF c3 conjI [OF f c4]]]]]])
qed

section \<open>Degrees in undirected graphs\<close>

lemma degree_counts_adjacent:
  assumes m: "mirrored g" and k: "has_key a (g_nodes g)"
  shows "degree g a = Inr (int (card (adjacent g a)))"
proof -
  define S where "S = set (map fst (g_edges g))"
  define B where "B = adjacent g a"
  have mem: "has_key e (g_edges g) \<longleftrightarrow> e \<in> S" for e
    by (simp add: S_def has_key_iff)
  have sym: "(x, y) \<in> S \<longleftrightarrow> (y, x) \<in> S" for x y
    using m by (simp add: mirrored_def mem)
  have noloop: "(x, x) \<notin> S" for x
    using m by (simp add: mirrored_def mem)
  have B: "B = {b. (a, b) \<in> S}"
    by (simp add: B_def adjacent_def mem)
  have "B \<subseteq> snd ` S"
    unfolding B by force
  moreover have "finite S" by (simp add: S_def)
  ultimately have finB: "finite B"
    by (meson finite_imageI finite_subset)
  have split: "{e. a = fst e \<or> a = snd e} \<inter> S = Pair a ` B \<union> (\<lambda>b. (b, a)) ` B"
    unfolding B using sym by auto
  have disj: "Pair a ` B \<inter> (\<lambda>b. (b, a)) ` B = {}"
    unfolding B using noloop by auto
  have c1: "card (Pair a ` B) = card B"
    by (rule card_image) (simp add: inj_on_def)
  have c2: "card ((\<lambda>b. (b, a)) ` B) = card B"
    by (rule card_image) (simp add: inj_on_def)
  have "length (filter (\<lambda>e. a = fst e \<or> a = snd e) (map fst (g_edges g)))
          = card ({e. a = fst e \<or> a = snd e} \<inter> S)"
  proof -
    from m have "distinct (map fst (g_edges g))"
      by (simp add: mirrored_def)
    then show ?thesis
      unfolding S_def by (rule distinct_length_filter)
  qed
  also have "\<dots> = card (Pair a ` B) + card ((\<lambda>b. (b, a)) ` B)"
  proof -
    have "card (Pair a ` B \<union> (\<lambda>b. (b, a)) ` B) = card (Pair a ` B) + card ((\<lambda>b. (b, a)) ` B)"
      by (rule card_Un_disjoint) (use finB disj in simp_all)
    then show ?thesis
      by (simp only: split)
  qed
  also have "\<dots> = 2 * card B"
    by (simp add: c1 c2)
  finally have "length (filter (\<lambda>e. a = fst e \<or> a = snd e) (map fst (g_edges g))) = 2 * card B" .
  then show ?thesis
    using k by (simp add: degree_def B_def)
qed

text \<open>
  Claim C8. In an undirected graph, after any sequence of \<^verbatim>\<open>add_node\<close> and \<^verbatim>\<open>add_edge\<close>
  calls, failing ones included: the edge (a, b) is present exactly when the edge (b, a) is,
  and the two carry the same attributes; \<^verbatim>\<open>add_edge(a, a)\<close> raises the self-loop error and
  leaves the graph as it was; and \<^verbatim>\<open>degree(a)\<close>, for a node that is present, is the number of
  distinct nodes adjacent to it.
\<close>

theorem undirected_graph_symmetric:
  assumes "g = undirected_run ms"
  shows "(\<forall>a b. has_key (a, b) (g_edges g) = has_key (b, a) (g_edges g))
       \<and> (\<forall>a b ea eb. edge g a b = Inr ea \<longrightarrow> edge g b a = Inr eb \<longrightarrow> e_attributes ea = e_attributes eb)
       \<and> (\<forall>a attrs. undirected_add_edge g a a attrs = (Inl (GraphError SelfLoop), g))
       \<and> (\<forall>a. has_key a (g_nodes g) \<longrightarrow> degree g a = Inr (int (card (adjacent g a))))"
proof -
  have m: "mirrored g"
    unfolding assms by (rule mirrored_run)
  have p1: "\<forall>a b. has_key (a, b) (g_edges g) = has_key (b, a) (g_edges g)"
    using m by (simp add: mirrored_def)
  have att: "\<forall>a b ea eb. map_of (g_edges g) (a, b) = Some ea \<longrightarrow> map_of (g_edges g) (b, a) = Some eb
        \<longrightarrow> e_attributes ea = e_attributes eb"
    using m unfolding mirrored_def by blast
  have p2: "\<forall>a b ea eb. edge g a b = Inr ea \<longrightarrow> edge g b a = Inr eb \<longrightarrow> e_attributes ea = e_attributes eb"
  proof (intro allI impI)
    fix a b ea eb
    assume "edge g a b = Inr ea" and "edge g b a = Inr eb"
    then have "map_of (g_edges g) (a, b) = Some ea" and "map_of (g_edges g) (b, a) = Some eb"
      by (auto simp: edge_def split: option.splits)
    with att show "e_attributes ea = e_attributes eb" by blast
  qed
  have p3: "\<forall>a attrs. undirected_add_edge g a a attrs = (Inl (GraphError SelfLoop), g)"
    by (simp add: undirected_add_edge_def)
  have p4: "\<forall>a. has_key a (g_nodes g) \<longrightarrow> degree g a = Inr (int (card (adjacent g a)))"
    using m by (simp add: degree_counts_adjacent)
  show ?thesis
    by (rule conjI [OF p1 conjI [OF p2 conjI [OF p3 p4]]])
qed

text \<open>The triangle of \<^verbatim>\<open>test.py\<close>: node 1 has degree 2, and the edge (1, 2) has its mirror.\<close>

theorem undirected_graph_symmetric_witness:
  "has_key 1 (g_nodes (undirected_run triangle)) \<and>
   degree (undirected_run triangle) 1 = Inr 2 \<and>
   card (adjacent (undirected_run triangle) 1) = 2 \<and>
   has_key (1, 2) (g_edges (undirected_run triangle)) \<and>
   has_key (2, 1) (g_edges (undirected_run triangle)) \<and>
   undirected_add_edge (undirected_run triangle) 1 1 () = (Inl (GraphError SelfLoop), undirected_run triangle)"
proof -
  note T = undirected_graph_symmetric [OF refl, of triangle]
  have k: "has_key 1 (g_nodes (undirected_run triangle))" by code_simp
  have d: "degree (undirected_run triangle) 1 = Inr 2" by code_simp
  have e: "has_key (1, 2) (g_edges (undirected_run triangle))" by code_simp
  from T have sym: "\<forall>a b. has_key (a, b) (g_edges (undirected_run triangle))
      = has_key (b, a) (g_edges (undirected_run triangle))"
    by (rule conjunct1)
  from T have loop: "\<forall>a attrs. undirected_add_edge (undirected_run triangle) a a attrs
      = (Inl (GraphError SelfLoop), undirected_run triangle)"
    by (rule conjunct1 [OF conjunct2 [OF conjunct2]])
  from T have deg: "\<forall>a. has_key a (g_nodes (undirected_run triangle)) \<longrightarrow>
      degree (undirected_run triangle) a = Inr (int (card (adjacent (undirected_run triangle) a)))"
    by (rule conjunct2 [OF conjunct2 [OF conjunct2]])
  from k have "degree (undirected_run triangle) 1
      = Inr (int (card (adjacent (undirected_run triangle) 1)))"
    by (rule deg [rule_format])
  with d have c: "card (adjacent (undirected_run triangle) 1) = 2"
    by simp
  from sym e have e': "has_key (2, 1) (g_edges (undirected_run triangle))"
    by simp
  have l: "undirected_add_edge (undirected_run triangle) 1 1 ()
      = (Inl (GraphError SelfLoop), undirected_run triangle)"
    by (rule loop [rule_format])
  show ?thesis
    by (rule conjI [OF k conjI [OF d conjI [OF c conjI [OF e conjI [OF e' l]]]]])
qed

end
